theory Spec2Isabelle
  imports Complex_Main "HOL-Library.Sublist" "HOL-Library.Log_Nat"
begin

section \<open>JavaScript values of \<^verbatim>\<open>Properties.tsx\<close>\<close>

text \<open>
  A JavaScript \<^verbatim>\<open>number\<close> is an IEEE 754 binary64 value: a finite double, given by the
  rational it stands for, one of the two infinities, or \<^verbatim>\<open>NaN\<close>. The sign of zero is not
  modelled. An arithmetic operation on finite doubles yields the exact result rounded to
  the nearest double, a tie going to the even significand.
\<close>

datatype jsnum = Num rat | PosInf | NegInf | NaN

text \<open>The integer nearest to a rational, a tie going to the even one.\<close>

definition rnd_even :: "rat \<Rightarrow> int" where
  "rnd_even z =
     (let f = \<lfloor>z\<rfloor>; d = z - of_int f
      in if d < 1 / 2 then f else if 1 / 2 < d then f + 1 else if even f then f else f + 1)"

text \<open>The binary exponent of a positive rational \<open>a\<close>: \<open>2 powi e \<le> a < 2 powi (e + 1)\<close>.\<close>

definition expo :: "rat \<Rightarrow> int" where
  "expo a =
     (let e0 = bitlen (fst (quotient_of a)) - bitlen (snd (quotient_of a))
      in if 2 powi e0 \<le> a then e0 else e0 - 1)"

text \<open>
  Rounding to binary64: 53 significant bits, the exponent no smaller than -1022 (below
  it the spacing of the subnormal numbers stays \<open>2 powi (- 1074)\<close>), and an infinity when the
  rounded magnitude reaches \<open>2 powi 1024\<close>.
\<close>

definition fl64 :: "rat \<Rightarrow> jsnum" where
  "fl64 x =
     (if x = 0 then Num 0
      else
        let a = \<bar>x\<bar>;
            e = max (expo a) (- 1022);
            q = 2 powi (e - 52);
            r = of_int (rnd_even (a / q)) * q
        in if 2 powi 1024 \<le> r then (if 0 < x then PosInf else NegInf)
           else Num (sgn x * r))"

text \<open>\<^verbatim>\<open>a + b\<close> on numbers.\<close>

fun js_add :: "jsnum \<Rightarrow> jsnum \<Rightarrow> jsnum" where
  "js_add (Num a) (Num b) = fl64 (a + b)"
| "js_add NaN _ = NaN"
| "js_add _ NaN = NaN"
| "js_add PosInf NegInf = NaN"
| "js_add NegInf PosInf = NaN"
| "js_add PosInf _ = PosInf"
| "js_add _ PosInf = PosInf"
| "js_add NegInf _ = NegInf"
| "js_add _ NegInf = NegInf"

text \<open>
  \<^verbatim>\<open>x / n\<close> where the divisor is an array length or the sum of two (a non-negative
  integer below \<open>2 ^ 33\<close>, so a double): \<^verbatim>\<open>0 / 0\<close> is \<^verbatim>\<open>NaN\<close>, a non-zero number
  over zero is an infinity, and every other quotient is rounded.
\<close>

fun js_div_len :: "jsnum \<Rightarrow> nat \<Rightarrow> jsnum" where
  "js_div_len (Num a) n =
     (if n = 0 then (if a = 0 then NaN else if 0 < a then PosInf else NegInf)
      else fl64 (a / of_nat n))"
| "js_div_len PosInf n = PosInf"
| "js_div_len NegInf n = NegInf"
| "js_div_len NaN n = NaN"

text \<open>\<^verbatim>\<open>x * 100\<close>.\<close>

fun js_times100 :: "jsnum \<Rightarrow> jsnum" where
  "js_times100 (Num a) = fl64 (a * 100)"
| "js_times100 x = x"

text \<open>
  \<^verbatim>\<open>Math.round(x)\<close>: the nearest integer, a tie going up; \<^verbatim>\<open>NaN\<close> stays \<^verbatim>\<open>NaN\<close>. The
  result is a double: a double of magnitude \<open>2 ^ 52\<close> or more is an integer already.
\<close>

fun Math_round :: "jsnum \<Rightarrow> jsnum" where
  "Math_round (Num a) = Num (of_int (round a))"
| "Math_round x = x"

text \<open>\<^verbatim>\<open>x || 0\<close>: the falsy numbers are zero and \<^verbatim>\<open>NaN\<close>.\<close>

fun or0 :: "jsnum \<Rightarrow> jsnum" where
  "or0 (Num a) = Num a"
| "or0 NaN = Num 0"
| "or0 x = x"

text \<open>
  A \<^verbatim>\<open>Date\<close> in local time, by its calendar fields (month from 0, time of day in
  milliseconds), or the invalid date that \<^verbatim>\<open>new Date\<close> makes of a string it cannot read.
  Two valid dates compare as their fields do, most significant first.
\<close>

datatype jsdate = InvalidDate | Date (year: int) (month: nat) (day: nat) (ms: nat)

text \<open>\<^verbatim>\<open>a >= b\<close> on dates; every comparison with an invalid date is false.\<close>

fun date_ge :: "jsdate \<Rightarrow> jsdate \<Rightarrow> bool" where
  "date_ge (Date y m d t) (Date y' m' d' t') =
     (y' < y \<or> (y' = y \<and> (m' < m \<or> (m' = m \<and> (d' < d \<or> (d' = d \<and> t' \<le> t))))))"
| "date_ge _ _ = False"

section \<open>Rows read from the remote store\<close>

text \<open>
  A query answers with \<^verbatim>\<open>{ data, error }\<close>: on failure \<^verbatim>\<open>data\<close> is \<^verbatim>\<open>null\<close> and
  \<^verbatim>\<open>error\<close> is an object.
\<close>

datatype 'a response = Response (rdata: "'a option") (rerror: "string option")

text \<open>
  The fields the page reads from each row. A numeric field holds what \<^verbatim>\<open>Number(...)\<close>
  makes of the column, a date field what \<^verbatim>\<open>new Date(...)\<close> makes of it; the date of a
  payment is \<open>None\<close> when the column is empty (falsy).
\<close>

record Room =
  r_status :: string
  r_price :: jsnum

record Tenant =
  t_status :: string
  t_start_date :: jsdate
  t_end_date :: jsdate

record Payment =
  pay_id :: string
  pay_property_id :: string
  pay_status :: string
  pay_amount :: jsnum
  pay_date :: "jsdate option"
  pay_created_at :: int

record MaintenanceRequest =
  m_status :: string
  m_priority :: string

record PropertyStats =
  stats_id :: string
  total_revenue :: jsnum
  total_tenants :: nat
  total_rooms :: nat
  occupied_rooms :: nat
  occupancy_rate :: jsnum
  pending_payments :: jsnum
  monthly_revenue :: jsnum
  yearly_revenue :: jsnum
  maintenance_costs :: nat
  avg_room_price :: jsnum
  payment_collection_rate :: jsnum
  overdue_payments :: jsnum
  avg_tenant_stay :: jsnum
  tenant_turnover_rate :: jsnum
  maintenance_requests_open :: nat
  maintenance_requests_total :: nat

section \<open>The statistics of one property (the body of the loop in \<^verbatim>\<open>loadProperties\<close>)\<close>

text \<open>
  What the five queries of one iteration answered, and the clock read in that iteration.
  The loop reads only \<^verbatim>\<open>data\<close> of each answer.
\<close>

record queries =
  rooms_q :: "Room list response"
  tenants_q :: "Tenant list response"
  historical_q :: "Tenant list response"
  payments_q :: "Payment list response"
  maintenance_q :: "MaintenanceRequest list response"
  now :: jsdate

text \<open>\<^verbatim>\<open>xs?.length || 0\<close> and \<^verbatim>\<open>xs?.filter(f).length || 0\<close>.\<close>

definition len0 :: "'a list option \<Rightarrow> nat" where
  "len0 xs = (case xs of None \<Rightarrow> 0 | Some l \<Rightarrow> length l)"

definition totalRooms :: "Room list option \<Rightarrow> nat" where
  "totalRooms rooms = len0 rooms"

definition occupiedRooms :: "Room list option \<Rightarrow> nat" where
  "occupiedRooms rooms = len0 (map_option (filter (\<lambda>r. r_status r = ''occupied'')) rooms)"

definition occupancyRate :: "Room list option \<Rightarrow> jsnum" where
  "occupancyRate rooms =
     (if 0 < totalRooms rooms
      then Math_round (js_times100
             (js_div_len (Num (of_nat (occupiedRooms rooms))) (totalRooms rooms)))
      else Num 0)"

text \<open>
  \<^verbatim>\<open>rooms?.reduce((sum, room) => sum + Number(room.price), 0) / totalRooms || 0\<close>; with
  \<^verbatim>\<open>rooms\<close> null the dividend is \<^verbatim>\<open>undefined\<close>, which division turns into \<^verbatim>\<open>NaN\<close>.
\<close>

definition avgRoomPrice :: "Room list option \<Rightarrow> jsnum" where
  "avgRoomPrice rooms =
     or0 (js_div_len
            (case rooms of None \<Rightarrow> NaN
             | Some rs \<Rightarrow> foldl (\<lambda>sum room. js_add sum (r_price room)) (Num 0) rs)
            (totalRooms rooms))"

definition activeTenants :: "Tenant list option \<Rightarrow> Tenant list" where
  "activeTenants tenants =
     (case tenants of None \<Rightarrow> [] | Some ts \<Rightarrow> filter (\<lambda>t. t_status t = ''active'') ts)"

text \<open>
  \<^verbatim>\<open>(end.getFullYear() - start.getFullYear()) * 12 + end.getMonth() - start.getMonth()\<close>;
  the years of a valid date are small integers, on which this arithmetic is exact.
\<close>

fun months :: "jsdate \<Rightarrow> jsdate \<Rightarrow> jsnum" where
  "months (Date y m d t) (Date y' m' d' t') = Num (of_int ((y' - y) * 12 + int m' - int m))"
| "months _ _ = NaN"

definition avgTenantStay :: "Tenant list option \<Rightarrow> jsnum" where
  "avgTenantStay tenants =
     js_div_len
       (foldl (\<lambda>sum tenant. js_add sum (months (t_start_date tenant) (t_end_date tenant)))
          (Num 0) (activeTenants tenants))
       (if length (activeTenants tenants) = 0 then 1 else length (activeTenants tenants))"

text \<open>
  \<^verbatim>\<open>historicalTenants ? (historicalTenants.length /
     (historicalTenants.length + activeTenants.length)) * 100 : 0\<close>: an empty array is truthy,
  only \<^verbatim>\<open>null\<close> takes the second branch.
\<close>

definition turnoverRate :: "Tenant list option \<Rightarrow> Tenant list option \<Rightarrow> jsnum" where
  "turnoverRate historicalTenants tenants =
     (case historicalTenants of
        None \<Rightarrow> Num 0
      | Some h \<Rightarrow>
          js_times100
            (js_div_len (Num (of_nat (length h))) (length h + length (activeTenants tenants))))"

definition monthStart :: "jsdate \<Rightarrow> jsdate" where
  "monthStart n = (case n of InvalidDate \<Rightarrow> InvalidDate | Date y m d t \<Rightarrow> Date y m 1 0)"

definition yearStart :: "jsdate \<Rightarrow> jsdate" where
  "yearStart n = (case n of InvalidDate \<Rightarrow> InvalidDate | Date y m d t \<Rightarrow> Date y 0 1 0)"

text \<open>
  \<^verbatim>\<open>p => { const paymentDate = p.date ? new Date(p.date) : null;
             return paymentDate && paymentDate >= start; }\<close>
\<close>

definition dated_from :: "jsdate \<Rightarrow> Payment \<Rightarrow> bool" where
  "dated_from start p = (case pay_date p of None \<Rightarrow> False | Some d \<Rightarrow> date_ge d start)"

definition monthlyPayments :: "jsdate \<Rightarrow> Payment list option \<Rightarrow> Payment list" where
  "monthlyPayments n payments =
     (case payments of None \<Rightarrow> [] | Some ps \<Rightarrow> filter (dated_from (monthStart n)) ps)"

definition yearlyPayments :: "jsdate \<Rightarrow> Payment list option \<Rightarrow> Payment list" where
  "yearlyPayments n payments =
     (case payments of None \<Rightarrow> [] | Some ps \<Rightarrow> filter (dated_from (yearStart n)) ps)"

text \<open>
  \<^verbatim>\<open>ps.reduce((sum, payment) =>
       payment.status === st ? sum + Number(payment.amount) : sum, 0)\<close>
\<close>

definition sum_status :: "string \<Rightarrow> Payment list \<Rightarrow> jsnum" where
  "sum_status st ps =
     foldl (\<lambda>sum payment. if pay_status payment = st then js_add sum (pay_amount payment) else sum)
       (Num 0) ps"

text \<open>\<^verbatim>\<open>payments?.reduce(...) || 0\<close>: with \<^verbatim>\<open>payments\<close> null the left side is undefined.\<close>

definition sum_status0 :: "string \<Rightarrow> Payment list option \<Rightarrow> jsnum" where
  "sum_status0 st payments =
     (case payments of None \<Rightarrow> Num 0 | Some ps \<Rightarrow> or0 (sum_status st ps))"

definition totalRevenue :: "Payment list option \<Rightarrow> jsnum" where
  "totalRevenue payments = sum_status0 ''paid'' payments"

definition monthlyRevenue :: "jsdate \<Rightarrow> Payment list option \<Rightarrow> jsnum" where
  "monthlyRevenue n payments = sum_status ''paid'' (monthlyPayments n payments)"

definition yearlyRevenue :: "jsdate \<Rightarrow> Payment list option \<Rightarrow> jsnum" where
  "yearlyRevenue n payments = sum_status ''paid'' (yearlyPayments n payments)"

definition pendingPayments :: "Payment list option \<Rightarrow> jsnum" where
  "pendingPayments payments = sum_status0 ''pending'' payments"

definition overduePayments :: "Payment list option \<Rightarrow> jsnum" where
  "overduePayments payments = sum_status0 ''overdue'' payments"

definition paymentCollectionRate :: "Payment list option \<Rightarrow> jsnum" where
  "paymentCollectionRate payments =
     (let totalPayments = len0 payments;
          paidPayments = len0 (map_option (filter (\<lambda>p. pay_status p = ''paid'')) payments)
      in if 0 < totalPayments
         then js_times100 (js_div_len (Num (of_nat paidPayments)) totalPayments)
         else Num 0)"

definition openRequests :: "MaintenanceRequest list option \<Rightarrow> nat" where
  "openRequests maintenanceRequests =
     len0 (map_option (filter (\<lambda>r. m_status r = ''pending'' \<or> m_status r = ''in-progress''))
             maintenanceRequests)"

definition estimatedCost :: "MaintenanceRequest \<Rightarrow> nat" where
  "estimatedCost request =
     (if m_priority request = ''high'' then 1000000
      else if m_priority request = ''medium'' then 500000
      else 250000)"

definition maintenanceCosts :: "MaintenanceRequest list option \<Rightarrow> nat" where
  "maintenanceCosts maintenanceRequests =
     (case maintenanceRequests of None \<Rightarrow> 0
      | Some rs \<Rightarrow> foldl (\<lambda>sum request. sum + estimatedCost request) 0 rs)"

text \<open>The record stored at \<^verbatim>\<open>stats[property.id]\<close>.\<close>

definition stats_of :: "string \<Rightarrow> queries \<Rightarrow> PropertyStats" where
  "stats_of pid q =
     (let rooms = rdata (rooms_q q);
          tenants = rdata (tenants_q q);
          historicalTenants = rdata (historical_q q);
          payments = rdata (payments_q q);
          maintenanceRequests = rdata (maintenance_q q)
      in \<lparr> stats_id = pid,
           total_revenue = totalRevenue payments,
           total_tenants = length (activeTenants tenants),
           total_rooms = totalRooms rooms,
           occupied_rooms = occupiedRooms rooms,
           occupancy_rate = occupancyRate rooms,
           pending_payments = pendingPayments payments,
           monthly_revenue = monthlyRevenue (now q) payments,
           yearly_revenue = yearlyRevenue (now q) payments,
           maintenance_costs = maintenanceCosts maintenanceRequests,
           avg_room_price = avgRoomPrice rooms,
           payment_collection_rate = paymentCollectionRate payments,
           overdue_payments = overduePayments payments,
           avg_tenant_stay = Math_round (avgTenantStay tenants),
           tenant_turnover_rate = Math_round (turnoverRate historicalTenants tenants),
           maintenance_requests_open = openRequests maintenanceRequests,
           maintenance_requests_total = len0 maintenanceRequests \<rparr>)"

section \<open>The state of the page\<close>

record Property =
  p_id :: string
  p_name :: string
  p_address :: string
  p_city :: string
  p_phone :: string
  p_email :: string
  p_owner_id :: string
  p_created_at :: string
  p_updated_at :: string

text \<open>
  \<^verbatim>\<open>interface PropertyDetails\<close>: the columns of the property (\<^verbatim>\<open>...property\<close>) and the
  optional fields the loaders add.
\<close>

record PropertyDetails =
  property :: Property
  owner_email :: "string option"
  owner_name :: "string option"
  stats :: "PropertyStats option"
  tenants :: "Tenant list option"
  rooms :: "Room list option"
  payments :: "Payment list option"

record state =
  properties :: "PropertyDetails list"
  propertyStats :: "string \<rightharpoonup> PropertyStats"
  searchQuery :: string
  isLoading :: bool
  error :: "string option"
  showPropertyDetails :: "string option"
  selectedProperty :: "PropertyDetails option"

text \<open>What a \<^verbatim>\<open>try\<close> block throws: the error object of a query, or a \<^verbatim>\<open>TypeError\<close>.\<close>

datatype exn = QueryError string | TypeError

text \<open>\<^verbatim>\<open>a || b\<close> on optional strings: the empty string and a missing value are falsy.\<close>

fun str_or :: "string option \<Rightarrow> string option \<Rightarrow> string option" where
  "str_or None b = b"
| "str_or (Some a) b = (if a = [] then b else Some a)"

section \<open>\<^verbatim>\<open>loadProperties\<close>\<close>

text \<open>
  A row of \<^verbatim>\<open>backoffice_users\<close> as the object the client receives: its keys are the
  selected columns. \<^verbatim>\<open>.select('user_id, role').in('user_id', ownerIds)\<close> keeps the rows
  whose \<^verbatim>\<open>user_id\<close> is among the ids and, of each, the two columns named.
\<close>

type_synonym row = "string \<rightharpoonup> string"

definition select_columns :: "string list \<Rightarrow> row \<Rightarrow> row" where
  "select_columns cols r = (\<lambda>c. if c \<in> set cols then r c else None)"

definition backoffice_users_query :: "row list \<Rightarrow> string list \<Rightarrow> row list" where
  "backoffice_users_query tbl ownerIds =
     map (select_columns [''user_id'', ''role''])
       (filter (\<lambda>u. case u ''user_id'' of None \<Rightarrow> False | Some i \<Rightarrow> i \<in> set ownerIds) tbl)"

text \<open>
  What the store answers during one list load: to the query of all properties, to the
  owner query for the ids it is given, and to the queries of each property's iteration.
\<close>

record answers =
  properties_a :: "Property list response"
  backoffice_a :: "string list \<Rightarrow> row list response"
  queries_a :: "string \<Rightarrow> queries"

text \<open>
  \<^verbatim>\<open>backofficeUsers?.find(u => u.user_id === property.owner_id)\<close> and the object built
  from it.
\<close>

definition backofficeUser :: "row list option \<Rightarrow> Property \<Rightarrow> row option" where
  "backofficeUser backofficeUsers p =
     (case backofficeUsers of None \<Rightarrow> None
      | Some us \<Rightarrow> find (\<lambda>u. u ''user_id'' = Some (p_owner_id p)) us)"

definition with_owner :: "row list option \<Rightarrow> Property \<Rightarrow> PropertyDetails" where
  "with_owner backofficeUsers p =
     \<lparr> property = p,
       owner_email =
         str_or (Option.bind (backofficeUser backofficeUsers p) (\<lambda>u. u ''email''))
           (Some ''Unknown''),
       owner_name =
         str_or (Option.bind (backofficeUser backofficeUsers p) (\<lambda>u. u ''role''))
           (Some ''Unknown''),
       stats = None, tenants = None, rooms = None, payments = None \<rparr>"

text \<open>The loop: \<^verbatim>\<open>stats[property.id] = {...}\<close> for each property in turn.\<close>

definition collect_stats :: "(string \<Rightarrow> queries) \<Rightarrow> Property list \<Rightarrow> (string \<rightharpoonup> PropertyStats)" where
  "collect_stats qs ps =
     foldl (\<lambda>stats p. stats(p_id p \<mapsto> stats_of (p_id p) (qs (p_id p)))) Map.empty ps"

text \<open>\<^verbatim>\<open>propertiesData || []\<close> and \<^verbatim>\<open>propertiesData?.map(p => p.owner_id) || []\<close>.\<close>

definition or_empty :: "'a list option \<Rightarrow> 'a list" where
  "or_empty xs = (case xs of None \<Rightarrow> [] | Some l \<Rightarrow> l)"

definition ownerIds :: "Property list option \<Rightarrow> string list" where
  "ownerIds propertiesData = map p_owner_id (or_empty propertiesData)"

text \<open>
  The \<^verbatim>\<open>try\<close> block, from the state left by \<^verbatim>\<open>setIsLoading(true); setError(null)\<close>.
  Only the first two queries have their \<^verbatim>\<open>error\<close> read.
\<close>

definition loadProperties_try :: "state \<Rightarrow> answers \<Rightarrow> exn + state" where
  "loadProperties_try s a =
     (case rerror (properties_a a) of
        Some propertiesError \<Rightarrow> Inl (QueryError propertiesError)
      | None \<Rightarrow>
          (let propertiesData = rdata (properties_a a);
               users = backoffice_a a (ownerIds propertiesData)
           in case rerror users of
                Some backofficeError \<Rightarrow> Inl (QueryError backofficeError)
              | None \<Rightarrow>
                  Inr (s\<lparr> properties := map (with_owner (rdata users)) (or_empty propertiesData),
                          propertyStats :=
                            collect_stats (queries_a a) (or_empty propertiesData) \<rparr>)))"

definition loadProperties :: "state \<Rightarrow> answers \<Rightarrow> state" where
  "loadProperties s a =
     (let s1 = s\<lparr> isLoading := True, error := None \<rparr>;
          s2 = (case loadProperties_try s1 a of
                  Inl err \<Rightarrow> s1\<lparr> error := Some ''Failed to load properties'' \<rparr>
                | Inr s' \<Rightarrow> s')
      in s2\<lparr> isLoading := False \<rparr>)"

section \<open>\<^verbatim>\<open>loadPropertyDetails\<close> and \<^verbatim>\<open>handleViewDetails\<close>\<close>

text \<open>
  The property joined with its owner:
  \<^verbatim>\<open>select('*, users!properties_owner_id_fkey(email, raw_user_meta_data)')\<close>.
\<close>

record Owner =
  u_email :: "string option"
  u_name :: "string option"

record PropertyJoined =
  j_property :: Property
  j_users :: "Owner option"

record detail_answers =
  property_d :: "PropertyJoined response"
  rooms_d :: "Room list response"
  tenants_d :: "Tenant list response"
  payments_d :: "Payment list response"

text \<open>
  The payments query of the detail loader, on the rows of the \<^verbatim>\<open>payments\<close> table:
  \<^verbatim>\<open>.eq('property_id', propertyId).order('created_at', { ascending: false })\<close>.
\<close>

definition payments_query :: "Payment list \<Rightarrow> string \<Rightarrow> Payment list" where
  "payments_query tbl propertyId =
     rev (sort_key pay_created_at (filter (\<lambda>p. pay_property_id p = propertyId) tbl))"

text \<open>
  The \<^verbatim>\<open>try\<close> block. A null \<^verbatim>\<open>property\<close> without an error makes
  \<^verbatim>\<open>property.users\<close> throw a \<^verbatim>\<open>TypeError\<close>.
\<close>

definition loadPropertyDetails_try :: "state \<Rightarrow> string \<Rightarrow> detail_answers \<Rightarrow> exn + state" where
  "loadPropertyDetails_try s propertyId a =
     (case rerror (property_d a) of Some propertyError \<Rightarrow> Inl (QueryError propertyError)
      | None \<Rightarrow>
     (case rerror (rooms_d a) of Some roomsError \<Rightarrow> Inl (QueryError roomsError)
      | None \<Rightarrow>
     (case rerror (tenants_d a) of Some tenantsError \<Rightarrow> Inl (QueryError tenantsError)
      | None \<Rightarrow>
     (case rerror (payments_d a) of Some paymentsError \<Rightarrow> Inl (QueryError paymentsError)
      | None \<Rightarrow>
     (case rdata (property_d a) of None \<Rightarrow> Inl TypeError
      | Some pj \<Rightarrow>
          Inr (s\<lparr> selectedProperty := Some
                 \<lparr> property = j_property pj,
                   owner_email = Option.bind (j_users pj) u_email,
                   owner_name =
                     str_or (Option.bind (j_users pj) u_name) (Option.bind (j_users pj) u_email),
                   stats = propertyStats s propertyId,
                   tenants = rdata (tenants_d a),
                   rooms = rdata (rooms_d a),
                   payments = rdata (payments_d a) \<rparr> \<rparr>))))))"

definition loadPropertyDetails :: "state \<Rightarrow> string \<Rightarrow> detail_answers \<Rightarrow> state" where
  "loadPropertyDetails s propertyId a =
     (let s1 = s\<lparr> isLoading := True, error := None \<rparr>;
          s2 = (case loadPropertyDetails_try s1 propertyId a of
                  Inl err \<Rightarrow> s1\<lparr> error := Some ''Failed to load property details'',
                                 selectedProperty := None \<rparr>
                | Inr s' \<Rightarrow> s')
      in s2\<lparr> isLoading := False \<rparr>)"

definition handleViewDetails :: "state \<Rightarrow> string \<Rightarrow> detail_answers \<Rightarrow> state" where
  "handleViewDetails s propertyId a =
     loadPropertyDetails (s\<lparr> showPropertyDetails := Some propertyId \<rparr>) propertyId a"

section \<open>The view\<close>

text \<open>
  A character of a string stands for the UTF-16 code unit of the same number, so that the
  strings of this theory are the texts of Basic Latin and Latin-1 Supplement (U+0000 to
  U+00FF); text with other characters is outside the type. On these characters
  \<^verbatim>\<open>toLowerCase\<close> adds 32 to the capitals A to Z (65 to 90) and to the Latin-1 capitals
  U+00C0 to U+00DE except the multiplication sign U+00D7 (192 to 222 except 215), and
  leaves every other character as it is.
\<close>

definition lower_char :: "char \<Rightarrow> char" where
  "lower_char c =
     (let n = of_char c :: nat
      in if (65 \<le> n \<and> n \<le> 90) \<or> (192 \<le> n \<and> n \<le> 222 \<and> n \<noteq> 215)
         then char_of (n + 32) else c)"

definition toLowerCase :: "string \<Rightarrow> string" where
  "toLowerCase s = map lower_char s"

text \<open>\<^verbatim>\<open>s.includes(q)\<close>: \<^verbatim>\<open>q\<close> starts at some position of \<^verbatim>\<open>s\<close>.\<close>

fun js_includes :: "string \<Rightarrow> string \<Rightarrow> bool" where
  "js_includes [] q = (q = [])"
| "js_includes (c # s) q = (prefix q (c # s) \<or> js_includes s q)"




text \<open>
  The payments under "Recent Activity": the modal is rendered when
  \<^verbatim>\<open>showPropertyDetails && selectedProperty\<close>, and lists
  \<^verbatim>\<open>selectedProperty.payments?.slice(0, 5)\<close>.
\<close>

definition recentActivity :: "state \<Rightarrow> Payment list" where
  "recentActivity s =
     (case str_or (showPropertyDetails s) None of None \<Rightarrow> []
      | Some shown \<Rightarrow>
          (case selectedProperty s of None \<Rightarrow> []
           | Some sel \<Rightarrow> (case payments sel of None \<Rightarrow> [] | Some ps \<Rightarrow> take 5 ps)))"

section \<open>Notions used to state the properties\<close>

text \<open>The value of a finite number.\<close>

fun num_val :: "jsnum \<Rightarrow> rat" where
  "num_val (Num v) = v"
| "num_val _ = 0"

text \<open>
  The sum of a list of numbers as JavaScript computes it: from the left, starting at 0,
  each addition rounded.
\<close>

definition js_sum :: "jsnum list \<Rightarrow> jsnum" where
  "js_sum xs = foldl js_add (Num 0) xs"

text \<open>
  Whole amounts (rupiah without a fraction) whose magnitudes add up to at most \<open>2 ^ 53\<close>:
  on such numbers no addition rounds.
\<close>

definition is_whole :: "jsnum \<Rightarrow> bool" where
  "is_whole x = (case x of Num v \<Rightarrow> of_int \<lfloor>v\<rfloor> = v | _ \<Rightarrow> False)"

definition whole_within :: "jsnum list \<Rightarrow> bool" where
  "whole_within xs = (list_all is_whole xs \<and> (\<Sum>x\<leftarrow>xs. \<bar>num_val x\<bar>) \<le> 2 ^ 53)"

text \<open>The exact percentage of rooms marked occupied.\<close>

definition occupied_share :: "Room list \<Rightarrow> rat" where
  "occupied_share rs =
     of_nat (length (filter (\<lambda>r. r_status r = ''occupied'') rs)) / of_nat (length rs) * 100"

text \<open>The sum of the amounts of the payments that satisfy a condition.\<close>

definition amount_with :: "(Payment \<Rightarrow> bool) \<Rightarrow> Payment list \<Rightarrow> rat" where
  "amount_with P ps = (\<Sum>p\<leftarrow>filter P ps. num_val (pay_amount p))"

text \<open>The three statuses that enter a revenue, pending or overdue sum.\<close>

definition counted_status :: "Payment \<Rightarrow> bool" where
  "counted_status p =
     (pay_status p = ''paid'' \<or> pay_status p = ''pending'' \<or> pay_status p = ''overdue'')"

text \<open>
  The date windows as the specification words them, "month to date" and "year to date":
  from the start of the period up to the current moment.
\<close>

definition in_window :: "jsdate \<Rightarrow> jsdate \<Rightarrow> Payment \<Rightarrow> bool" where
  "in_window start n p =
     (case pay_date p of None \<Rightarrow> False | Some d \<Rightarrow> date_ge d start \<and> date_ge n d)"

definition month_to_date_revenue :: "jsdate \<Rightarrow> Payment list \<Rightarrow> jsnum" where
  "month_to_date_revenue n ps =
     Num (amount_with (\<lambda>p. pay_status p = ''paid'' \<and> in_window (monthStart n) n p) ps)"

definition year_to_date_revenue :: "jsdate \<Rightarrow> Payment list \<Rightarrow> jsnum" where
  "year_to_date_revenue n ps =
     Num (amount_with (\<lambda>p. pay_status p = ''paid'' \<and> in_window (yearStart n) n p) ps)"

text \<open>
  The owner name as the specification words it: the role of the backoffice user that owns
  the property, \<^verbatim>\<open>Unknown\<close> when no backoffice user matches.
\<close>

definition role_or_unknown :: "row list \<Rightarrow> Property \<Rightarrow> string option" where
  "role_or_unknown tbl p =
     (case find (\<lambda>u. u ''user_id'' = Some (p_owner_id p)) tbl of
        None \<Rightarrow> Some ''Unknown''
      | Some u \<Rightarrow> u ''role'')"

text \<open>The same, with \<^verbatim>\<open>Unknown\<close> also for a matching user whose role is null or empty.\<close>

definition truthy_role_or_unknown :: "row list \<Rightarrow> Property \<Rightarrow> string option" where
  "truthy_role_or_unknown tbl p =
     (case find (\<lambda>u. u ''user_id'' = Some (p_owner_id p)) tbl of
        None \<Rightarrow> Some ''Unknown''
      | Some u \<Rightarrow>
          (case u ''role'' of
             None \<Rightarrow> Some ''Unknown''
           | Some r \<Rightarrow> if r = [] then Some ''Unknown'' else Some r))"







section \<open>Concrete inputs\<close>

text \<open>A property for which every query of its iteration answers with no rows.\<close>

definition empty_property :: queries where
  "empty_property =
     \<lparr> rooms_q = Response (Some []) None, tenants_q = Response (Some []) None,
       historical_q = Response (Some []) None, payments_q = Response (Some []) None,
       maintenance_q = Response (Some []) None, now = Date 2024 4 15 0 \<rparr>"

definition three_rooms :: "Room list" where
  "three_rooms =
     [\<lparr> r_status = ''occupied'', r_price = Num 400000 \<rparr>,
      \<lparr> r_status = ''available'', r_price = Num 500000 \<rparr>,
      \<lparr> r_status = ''occupied'', r_price = Num 600001 \<rparr>]"

text \<open>Forty rooms, 23 of them occupied: 57.5 percent.\<close>

definition forty_rooms :: "Room list" where
  "forty_rooms =
     replicate 23 \<lparr> r_status = ''occupied'', r_price = Num 500000 \<rparr> @
     replicate 17 \<lparr> r_status = ''available'', r_price = Num 450000 \<rparr>"

definition payment :: "string \<Rightarrow> string \<Rightarrow> rat \<Rightarrow> jsdate option \<Rightarrow> int \<Rightarrow> Payment" where
  "payment i st amt d c =
     \<lparr> pay_id = i, pay_property_id = ''p1'', pay_status = st, pay_amount = Num amt,
       pay_date = d, pay_created_at = c \<rparr>"

text \<open>Payments of every status, one of them of a status that no sum counts.\<close>

definition five_payments :: "Payment list" where
  "five_payments =
     [payment ''a'' ''paid'' 100 (Some (Date 2024 4 10 0)) 1,
      payment ''b'' ''pending'' 50 (Some (Date 2024 4 12 0)) 2,
      payment ''c'' ''overdue'' 25 (Some (Date 2024 3 1 0)) 3,
      payment ''d'' ''cancelled'' 999 (Some (Date 2024 4 11 0)) 4,
      payment ''e'' ''paid'' 200 None 5]"

text \<open>
  Paid payments seen on 15 May 2024 (months count from 0): dated earlier in May, in
  November to come, in February, not dated, in the year before, with an unreadable date;
  and a pending one.
\<close>

definition dated_payments :: "Payment list" where
  "dated_payments =
     [payment ''a'' ''paid'' 100 (Some (Date 2024 4 10 0)) 1,
      payment ''b'' ''paid'' 70 (Some (Date 2024 10 1 0)) 2,
      payment ''c'' ''paid'' 40 (Some (Date 2024 1 20 0)) 3,
      payment ''d'' ''paid'' 30 None 4,
      payment ''e'' ''paid'' 15 (Some (Date 2023 11 31 0)) 5,
      payment ''f'' ''paid'' 8 (Some InvalidDate) 6,
      payment ''g'' ''pending'' 500 (Some (Date 2024 4 2 0)) 7]"

text \<open>The state of the page when it mounts.\<close>

definition initial_state :: state where
  "initial_state =
     \<lparr> properties = [], propertyStats = Map.empty, searchQuery = [], isLoading = True,
       error = None, showPropertyDetails = None, selectedProperty = None \<rparr>"

definition kost_melati :: Property where
  "kost_melati =
     \<lparr> p_id = ''p1'', p_name = ''Kost Melati'', p_address = ''Jl. Mawar 1'', p_city = ''Bandung'',
       p_phone = ''0811'', p_email = ''melati@example.com'', p_owner_id = ''u1'',
       p_created_at = ''2024-01-01'', p_updated_at = ''2024-01-02'' \<rparr>"

text \<open>An iteration in which each of the five queries fails.\<close>

definition failed_queries :: queries where
  "failed_queries =
     \<lparr> rooms_q = Response None (Some ''timeout''), tenants_q = Response None (Some ''timeout''),
       historical_q = Response None (Some ''timeout''),
       payments_q = Response None (Some ''timeout''),
       maintenance_q = Response None (Some ''timeout''), now = Date 2024 4 15 0 \<rparr>"

text \<open>
  Two list loads: one whose per-property queries all fail, one where everything answers.
\<close>

definition children_fail :: answers where
  "children_fail =
     \<lparr> properties_a = Response (Some [kost_melati]) None,
       backoffice_a = (\<lambda>ids. Response (Some []) None),
       queries_a = (\<lambda>pid. failed_queries) \<rparr>"

definition listed :: answers where
  "listed =
     \<lparr> properties_a = Response (Some [kost_melati]) None,
       backoffice_a = (\<lambda>ids. Response (Some []) None),
       queries_a = (\<lambda>pid. empty_property\<lparr> rooms_q := Response (Some three_rooms) None \<rparr>) \<rparr>"

text \<open>Two detail loads: one that succeeds, one whose rooms query fails.\<close>

definition melati_joined :: PropertyJoined where
  "melati_joined =
     \<lparr> j_property = kost_melati,
       j_users = Some \<lparr> u_email = Some ''sari@example.com'', u_name = Some ''Sari'' \<rparr> \<rparr>"

definition detail_ok :: detail_answers where
  "detail_ok =
     \<lparr> property_d = Response (Some melati_joined) None,
       rooms_d = Response (Some []) None,
       tenants_d = Response (Some []) None,
       payments_d = Response (Some []) None \<rparr>"

definition detail_rooms_fail :: detail_answers where
  "detail_rooms_fail = detail_ok\<lparr> rooms_d := Response None (Some ''timeout'') \<rparr>"

text \<open>Rows of \<^verbatim>\<open>backoffice_users\<close>, with the columns the table has.\<close>

definition backoffice_row :: "string \<Rightarrow> string \<Rightarrow> string \<Rightarrow> row" where
  "backoffice_row uid role mail =
     [''user_id'' \<mapsto> uid, ''role'' \<mapsto> role, ''email'' \<mapsto> mail]"

definition staff :: "row list" where
  "staff = [backoffice_row ''u0'' ''admin'' ''adi@example.com'',
            backoffice_row ''u1'' ''superadmin'' ''sari@example.com'']"

definition staff_blank_role :: "row list" where
  "staff_blank_role = [backoffice_row ''u1'' [] ''sari@example.com'']"

text \<open>A list load whose owner query is answered from a table of backoffice users.\<close>

definition listed_with :: "row list \<Rightarrow> answers" where
  "listed_with tbl =
     \<lparr> properties_a = Response (Some [kost_melati]) None,
       backoffice_a = (\<lambda>ids. Response (Some (backoffice_users_query tbl ids)) None),
       queries_a = (\<lambda>pid. empty_property) \<rparr>"



section \<open>Properties of the rounding\<close>

lemma rnd_even_of_int: "rnd_even (of_int k) = k"
  by (simp add: rnd_even_def)

lemma rnd_even_err: "\<bar>of_int (rnd_even z) - z\<bar> \<le> 1 / 2"
proof -
  have "of_int \<lfloor>z\<rfloor> \<le> z" "z < of_int \<lfloor>z\<rfloor> + 1"
    by linarith+
  then show ?thesis
    by (auto simp: rnd_even_def Let_def abs_le_iff)
qed

lemma pow2_less_iff: "(2::rat) powi m < 2 powi n \<longleftrightarrow> m < n"
proof
  assume less: "(2::rat) powi m < 2 powi n"
  show "m < n"
  proof (rule ccontr)
    assume "\<not> m < n"
    then have "n \<le> m" by simp
    from power_int_increasing[OF this, of "2::rat"] less
    show False by simp
  qed
next
  assume "m < n"
  then show "(2::rat) powi m < 2 powi n"
    by (rule power_int_strict_increasing) simp
qed

lemma pow2_le_iff: "(2::rat) powi m \<le> 2 powi n \<longleftrightarrow> m \<le> n"
  using pow2_less_iff[of n m] by (simp add: not_less[symmetric])

text \<open>The exponent brackets its argument between two powers of two.\<close>

lemma expo_bounds:
  assumes "0 < a"
  shows "2 powi (expo a) \<le> a \<and> a < 2 powi (expo a + 1)"
proof -
  obtain p q where pq: "quotient_of a = (p, q)"
    by (cases "quotient_of a")
  then have q: "0 < q" and a: "a = of_int p / of_int q"
    using quotient_of_denom_pos quotient_of_div by blast+
  with assms have p: "0 < p"
    by (simp add: zero_less_divide_iff)
  let ?bp = "bitlen p" and ?bq = "bitlen q"
  have bp1: "1 \<le> ?bp" and bq1: "1 \<le> ?bq"
    using p q bitlen_eq_zero_iff[of p] bitlen_eq_zero_iff[of q]
      bitlen_nonneg[of p] bitlen_nonneg[of q]
    by linarith+
  from bitlen_bounds[OF p] have "(2::int) ^ nat (?bp - 1) \<le> p" "p < 2 ^ nat ?bp"
    by simp_all
  then have "(of_int ((2::int) ^ nat (?bp - 1)) :: rat) \<le> of_int p"
    "(of_int p :: rat) < of_int (2 ^ nat ?bp)"
    by (simp_all only: of_int_le_iff of_int_less_iff)
  then have P: "(2::rat) powi (?bp - 1) \<le> of_int p" "(of_int p :: rat) < 2 powi ?bp"
    using bp1 by (simp_all add: power_int_def)
  from bitlen_bounds[OF q] have "(2::int) ^ nat (?bq - 1) \<le> q" "q < 2 ^ nat ?bq"
    by simp_all
  then have "(of_int ((2::int) ^ nat (?bq - 1)) :: rat) \<le> of_int q"
    "(of_int q :: rat) < of_int (2 ^ nat ?bq)"
    by (simp_all only: of_int_le_iff of_int_less_iff)
  then have Q: "(2::rat) powi (?bq - 1) \<le> of_int q" "(of_int q :: rat) < 2 powi ?bq"
    using bq1 by (simp_all add: power_int_def)
  have qpos: "(0::rat) < of_int q"
    using q by simp
  have up: "a < 2 powi (?bp - ?bq + 1)"
  proof -
    have "a < 2 powi ?bp / of_int q"
      unfolding a using P(2) qpos by (simp add: divide_strict_right_mono)
    also have "\<dots> \<le> 2 powi ?bp / 2 powi (?bq - 1)"
      using Q(1) by (simp add: frac_le)
    also have "\<dots> = 2 powi (?bp - ?bq + 1)"
      by (simp add: power_int_diff[symmetric] algebra_simps)
    finally show ?thesis .
  qed
  have lo: "2 powi (?bp - ?bq - 1) \<le> a"
  proof -
    have "(2::rat) powi (?bp - ?bq - 1) = 2 powi (?bp - 1) / 2 powi ?bq"
      by (simp add: power_int_diff[symmetric] algebra_simps)
    also have "\<dots> \<le> 2 powi (?bp - 1) / of_int q"
      using Q(2) qpos by (simp add: frac_le)
    also have "\<dots> \<le> a"
      unfolding a using P(1) qpos by (simp add: divide_right_mono)
    finally show ?thesis .
  qed
  show ?thesis
    using up lo by (auto simp: expo_def Let_def pq)
qed

lemma expo_ge:
  assumes "2 powi k \<le> a"
  shows "k \<le> expo a"
proof -
  have "0 < a"
    using assms zero_less_power_int[of "2::rat" k] by linarith
  from expo_bounds[OF this] assms have "(2::rat) powi k < 2 powi (expo a + 1)"
    by linarith
  then have "k < expo a + 1"
    by (simp only: pow2_less_iff)
  then show ?thesis by simp
qed

lemma expo_le:
  assumes "0 < a" "a \<le> 2 powi k"
  shows "expo a \<le> k"
proof -
  from expo_bounds[OF assms(1)] assms(2) have "(2::rat) powi (expo a) \<le> 2 powi k"
    by linarith
  then show ?thesis
    by (simp only: pow2_le_iff)
qed

text \<open>
  In the normal range rounding yields a finite double within one part in \<open>2 ^ 53\<close> of the
  exact value.
\<close>

lemma fl64_pos_rel_err:
  assumes lo: "2 powi (- 1022) \<le> a" and hi: "a \<le> 2 powi 1023"
  shows "\<exists>y. fl64 a = Num y \<and> 0 \<le> y \<and> \<bar>y - a\<bar> \<le> a / 2 ^ 53"
proof -
  have apos: "0 < a"
    using lo zero_less_power_int[of "2::rat" "- 1022"] by linarith
  let ?e = "expo a"
  have e: "- 1022 \<le> ?e"
    using expo_ge[OF lo] .
  have b: "2 powi ?e \<le> a"
    using expo_bounds[OF apos] by simp
  let ?q = "(2::rat) powi (?e - 52)"
  let ?m = "rnd_even (a / ?q)"
  let ?r = "of_int ?m * ?q"
  have qpos: "0 < ?q"
    by simp
  have "\<bar>of_int ?m - a / ?q\<bar> \<le> 1 / 2"
    by (rule rnd_even_err)
  then have "\<bar>of_int ?m - a / ?q\<bar> * ?q \<le> 1 / 2 * ?q"
    using qpos by (simp add: mult_right_mono)
  moreover have "\<bar>of_int ?m - a / ?q\<bar> * ?q = \<bar>?r - a\<bar>"
    using qpos
    by (simp add: abs_mult[symmetric, of _ ?q, simplified] left_diff_distrib abs_mult)
  ultimately have err: "\<bar>?r - a\<bar> \<le> ?q / 2"
    by simp
  have "?q / 2 = 2 powi ?e / 2 ^ 53"
    by (simp add: power_int_diff)
  also have "\<dots> \<le> a / 2 ^ 53"
    using b by (simp add: divide_right_mono)
  finally have q2: "?q / 2 \<le> a / 2 ^ 53" .
  have rnn: "0 \<le> ?r"
  proof -
    have "0 \<le> a / ?q"
      using apos qpos by simp
    then have "0 \<le> \<lfloor>a / ?q\<rfloor>"
      by simp
    then have "0 \<le> ?m"
      by (auto simp: rnd_even_def Let_def)
    then show ?thesis
      using qpos by simp
  qed
  have "?r \<le> a + a / 2 ^ 53"
    using err q2 by linarith
  also have "\<dots> \<le> 2 powi 1023 + 2 powi 1023 / 2 ^ 53"
    using hi by (simp add: add_mono divide_right_mono)
  also have "\<dots> < 2 powi 1024"
    by (simp add: power_int_def)
  finally have nov: "\<not> 2 powi 1024 \<le> ?r"
    by simp
  have "fl64 a = Num ?r"
    using apos e nov by (simp add: fl64_def Let_def max_def)
  with rnn err q2 show ?thesis
    by auto
qed

lemma fl64_minus:
  "fl64 (- x) =
     (case fl64 x of Num y \<Rightarrow> Num (- y) | PosInf \<Rightarrow> NegInf | NegInf \<Rightarrow> PosInf | NaN \<Rightarrow> NaN)"
  by (auto simp: fl64_def Let_def sgn_if)

lemma fl64_rel_err:
  assumes "x = 0 \<or> (2 powi (- 1022) \<le> \<bar>x\<bar> \<and> \<bar>x\<bar> \<le> 2 powi 1023)"
  shows "\<exists>y. fl64 x = Num y \<and> \<bar>y - x\<bar> \<le> \<bar>x\<bar> / 2 ^ 53"
proof -
  consider "x = 0" | "0 < x" | "x < 0" by linarith
  then show ?thesis
  proof cases
    case 1
    then show ?thesis by (simp add: fl64_def)
  next
    case 2
    with assms fl64_pos_rel_err[of x] show ?thesis by auto
  next
    case 3
    with assms fl64_pos_rel_err[of "- x"] obtain y
      where "fl64 (- x) = Num y" "\<bar>y - (- x)\<bar> \<le> (- x) / 2 ^ 53"
      by auto
    with 3 fl64_minus[of "- x"] show ?thesis
      by (auto simp: abs_if split: if_splits)
  qed
qed

text \<open>Rounding never gives \<^verbatim>\<open>NaN\<close>, so \<^verbatim>\<open>|| 0\<close> leaves a rounded value as it is.\<close>

lemma or0_fl64: "or0 (fl64 x) = fl64 x"
  by (simp add: fl64_def Let_def)

text \<open>An integer of magnitude at most \<open>2 ^ 53\<close> is a double.\<close>

lemma fl64_of_nat:
  assumes "n \<le> 2 ^ 53"
  shows "fl64 (of_nat n) = Num (of_nat n)"
proof (cases "n = 0")
  case True
  then show ?thesis by (simp add: fl64_def)
next
  case False
  let ?a = "of_nat n :: rat"
  have apos: "0 < ?a"
    using False by simp
  have a1: "2 powi 0 \<le> ?a"
    using False by simp
  have a53: "?a \<le> 2 powi 53"
  proof -
    have "(of_nat n :: rat) \<le> of_nat (2 ^ 53)"
      using assms by (simp only: of_nat_le_iff)
    then show ?thesis by (simp add: power_int_def)
  qed
  let ?e = "expo ?a"
  have e0: "0 \<le> ?e"
    using expo_ge[OF a1] .
  have e53: "?e \<le> 53"
    using expo_le[OF apos a53] .
  let ?q = "(2::rat) powi (?e - 52)"
  have "\<exists>k::int. ?a / ?q = of_int k"
  proof (cases "?e \<le> 52")
    case True
    then have "?a / ?q = ?a * 2 powi (52 - ?e)"
      by (simp add: power_int_diff field_simps)
    also have "\<dots> = ?a * 2 ^ nat (52 - ?e)"
      using True by (simp add: power_int_def)
    also have "\<dots> = of_int (int n * 2 ^ nat (52 - ?e))"
      by simp
    finally show ?thesis by blast
  next
    case False
    with e53 have e: "?e = 53"
      by simp
    from expo_bounds[OF apos] e have "2 powi 53 \<le> ?a"
      by simp
    with a53 have "?a = 2 powi 53"
      by simp
    then have "?a / ?q = of_int (2 ^ 52)"
      using e by (simp add: power_int_def)
    then show ?thesis by blast
  qed
  then obtain k :: int where k: "?a / ?q = of_int k"
    by blast
  have r: "of_int (rnd_even (?a / ?q)) * ?q = ?a"
    unfolding k rnd_even_of_int using k[symmetric] by simp
  have "?a < 2 powi 1024"
  proof -
    have "(2::rat) powi 53 < 2 powi 1024"
      by (simp add: power_int_def)
    with a53 show ?thesis by linarith
  qed
  then show ?thesis
    using apos e0 r by (simp add: fl64_def Let_def max_def)
qed

lemma fl64_of_int:
  assumes "\<bar>n\<bar> \<le> 2 ^ 53"
  shows "fl64 (of_int n) = Num (of_int n)"
proof (cases "0 \<le> n")
  case True
  then have "nat n \<le> 2 ^ 53"
    using assms by (simp add: nat_le_iff)
  from fl64_of_nat[OF this] True show ?thesis
    by simp
next
  case False
  then have "nat (- n) \<le> 2 ^ 53"
    using assms by (simp add: nat_le_iff)
  from fl64_of_nat[OF this] False have "fl64 (of_int (- n)) = Num (of_int (- n))"
    by simp
  then show ?thesis
    using fl64_minus[of "of_int (- n)"] by simp
qed

text \<open>Adding whole numbers whose magnitudes stay within \<open>2 ^ 53\<close> is exact.\<close>

lemma foldl_js_add_whole:
  assumes "list_all is_whole xs"
    and "\<bar>of_int i\<bar> + (\<Sum>x\<leftarrow>xs. \<bar>num_val x\<bar>) \<le> (2::rat) ^ 53"
  shows "foldl js_add (Num (of_int i)) xs = Num (of_int i + (\<Sum>x\<leftarrow>xs. num_val x))"
  using assms
proof (induction xs arbitrary: i)
  case Nil
  then show ?case by simp
next
  case (Cons x xs)
  from Cons.prems(1) obtain j :: int where x: "x = Num (of_int j)"
    by (cases x) (auto simp: is_whole_def)
  have nn: "0 \<le> (\<Sum>x\<leftarrow>xs. \<bar>num_val x\<bar>)"
    by (rule sum_list_nonneg) auto
  from Cons.prems(2) have b: "\<bar>of_int i :: rat\<bar> + \<bar>of_int j\<bar> + (\<Sum>x\<leftarrow>xs. \<bar>num_val x\<bar>) \<le> 2 ^ 53"
    by (simp add: x)
  with nn have "\<bar>of_int (i + j) :: rat\<bar> \<le> 2 ^ 53"
    by (simp; linarith)
  then have "(of_int \<bar>i + j\<bar> :: rat) \<le> of_int (2 ^ 53)"
    by simp
  then have "\<bar>i + j\<bar> \<le> 2 ^ 53"
    by (simp only: of_int_le_iff)
  from fl64_of_int[OF this] have step: "js_add (Num (of_int i)) x = Num (of_int (i + j))"
    by (simp add: x)
  have "\<bar>of_int (i + j) :: rat\<bar> + (\<Sum>x\<leftarrow>xs. \<bar>num_val x\<bar>) \<le> 2 ^ 53"
    using b by (simp; linarith)
  from Cons.IH[OF _ this] Cons.prems(1) step show ?case
    by (simp add: x)
qed

lemma js_sum_whole:
  assumes "whole_within xs"
  shows "js_sum xs = Num (\<Sum>x\<leftarrow>xs. num_val x)"
  using assms foldl_js_add_whole[of xs 0] by (simp add: js_sum_def whole_within_def)

lemma sum_list_filter_le:
  fixes g :: "'a \<Rightarrow> rat"
  assumes "\<And>x. 0 \<le> g x"
  shows "(\<Sum>x\<leftarrow>filter P xs. g x) \<le> (\<Sum>x\<leftarrow>xs. g x)"
  by (induction xs) (use assms in \<open>auto intro: add_increasing\<close>)

lemma whole_within_filter:
  assumes "whole_within (map f xs)"
  shows "whole_within (map f (filter P xs))"
proof -
  have "(\<Sum>x\<leftarrow>filter P xs. \<bar>num_val (f x)\<bar>) \<le> (\<Sum>x\<leftarrow>xs. \<bar>num_val (f x)\<bar>)"
    by (rule sum_list_filter_le) simp
  with assms show ?thesis
    by (auto simp: whole_within_def list_all_iff comp_def)
qed

text \<open>
  A count of \<open>k\<close> out of \<open>n\<close> as a rounded percentage: dividing, multiplying by 100 and
  \<^verbatim>\<open>Math.round\<close> give an integer at distance at most one half from the exact percentage,
  for every array length \<open>n\<close> (an array has fewer than \<open>2 ^ 32\<close> elements).
\<close>

lemma percent_nearest:
  assumes n0: "0 < n" and kn: "k \<le> n" and n32: "n < 2 ^ 32"
  shows "\<exists>r::int. Math_round (js_times100 (js_div_len (Num (of_nat k)) n)) = Num (of_int r) \<and>
           \<bar>of_int r - of_nat k / of_nat n * 100\<bar> \<le> (1 / 2 :: rat)"
proof (cases "k = 0")
  case True
  with n0 show ?thesis
    by (simp add: fl64_def)
next
  case False
  let ?N = "of_nat n :: rat"
  define X :: rat where "X = of_nat k / ?N"
  define u :: rat where "u = 1 / 2 ^ 53"
  define A :: rat where "A = 1 / 2 ^ 32"
  define C :: rat where "C = 1 / 2 ^ 33"
  define B :: rat where "B = 2 ^ 32"
  have nums: "0 \<le> u" "u \<le> 1" "C \<le> 100 * A - 100 * u" "C \<le> A" "B * (300 * u) < 1 / 2"
    by (simp_all add: u_def A_def C_def B_def)
  have Npos: "0 < ?N"
    using n0 by simp
  have N32: "?N \<le> B"
  proof -
    have "(of_nat n :: rat) \<le> of_nat (2 ^ 32)"
      using n32 by (simp only: of_nat_le_iff; simp)
    then show ?thesis by (simp add: B_def)
  qed
  have X1: "X \<le> 1"
    using kn Npos by (simp add: X_def)
  have XN: "1 / ?N \<le> X"
    using False Npos by (simp add: X_def divide_right_mono)
  have "1 / B \<le> 1 / ?N"
    using N32 Npos by (simp add: frac_le)
  moreover have "A = 1 / B"
    by (simp add: A_def B_def)
  ultimately have Xlo: "A \<le> X"
    using XN by linarith
  have small: "(2::rat) powi (- 1022) \<le> C"
  proof -
    have "(2::rat) powi (- 1022) \<le> 2 powi (- 33)"
      by (simp only: pow2_le_iff; simp)
    also have "\<dots> = C"
      using power_int_minus[of "2::rat" 33] by (simp add: inverse_eq_divide C_def)
    finally show ?thesis .
  qed
  have big: "(200::rat) \<le> 2 powi 1023"
    by (simp add: power_int_def)
  have "2 powi (- 1022) \<le> X" "X \<le> 2 powi 1023"
    using Xlo small nums(4) X1 big by linarith+
  from fl64_pos_rel_err[OF this] obtain y1
    where y1: "fl64 X = Num y1" "0 \<le> y1" "\<bar>y1 - X\<bar> \<le> X / 2 ^ 53"
    by blast
  have e1: "\<bar>y1 - X\<bar> \<le> u"
  proof -
    have "X / 2 ^ 53 \<le> 1 / 2 ^ 53"
      using X1 by (simp add: divide_right_mono)
    with y1(3) show ?thesis by (simp add: u_def)
  qed
  from e1 have d1: "X - u \<le> y1" "y1 \<le> X + u"
    by (simp_all add: abs_le_iff algebra_simps)
  have y1lo: "C \<le> y1 * 100"
    using d1(1) Xlo nums(3) by linarith
  have y1hi: "y1 * 100 \<le> 200"
    using d1(2) X1 nums(2) by linarith
  have "2 powi (- 1022) \<le> y1 * 100" "y1 * 100 \<le> 2 powi 1023"
    using y1lo y1hi small big by linarith+
  from fl64_pos_rel_err[OF this] obtain y2
    where y2: "fl64 (y1 * 100) = Num y2" "\<bar>y2 - y1 * 100\<bar> \<le> y1 * 100 / 2 ^ 53"
    by blast
  have e2: "\<bar>y2 - y1 * 100\<bar> \<le> 200 * u"
  proof -
    have "y1 * 100 * u \<le> 200 * u"
      using y1hi nums(1) by (rule mult_right_mono)
    with y2(2) show ?thesis by (simp add: u_def)
  qed
  let ?r = "round y2"
  have er: "\<bar>of_int ?r - y2\<bar> \<le> 1 / 2"
    by (rule of_int_round_abs_le)
  have D: "\<bar>of_int ?r - X * 100\<bar> \<le> 1 / 2 + 300 * u"
    using er e2 e1 by linarith
  let ?K = "?r * int n - 100 * int k"
  have K: "(of_int ?K :: rat) = ?N * (of_int ?r - X * 100)"
    using Npos by (simp add: X_def algebra_simps)
  have "\<bar>of_int ?K :: rat\<bar> = ?N * \<bar>of_int ?r - X * 100\<bar>"
    unfolding K using Npos by (simp add: abs_mult)
  also have "\<dots> \<le> ?N * (1 / 2 + 300 * u)"
    using D Npos by (simp add: mult_left_mono)
  also have "\<dots> < ?N / 2 + 1 / 2"
  proof -
    have "?N * (300 * u) \<le> B * (300 * u)"
      using N32 nums(1) by (simp add: mult_right_mono)
    with nums(5) show ?thesis
      by (simp add: algebra_simps)
  qed
  finally have "2 * \<bar>of_int ?K :: rat\<bar> < ?N + 1"
    by simp
  then have "(of_int (2 * \<bar>?K\<bar>) :: rat) < of_int (int n + 1)"
    by simp
  then have "2 * \<bar>?K\<bar> < int n + 1"
    by (simp only: of_int_less_iff)
  then have "2 * \<bar>?K\<bar> \<le> int n"
    by simp
  then have "(of_int (2 * \<bar>?K\<bar>) :: rat) \<le> of_int (int n)"
    by (simp only: of_int_le_iff)
  then have "\<bar>of_int ?K :: rat\<bar> \<le> ?N / 2"
    by simp
  then have "?N * \<bar>of_int ?r - X * 100\<bar> \<le> ?N * (1 / 2)"
    unfolding K using Npos by (simp add: abs_mult)
  then have "\<bar>of_int ?r - X * 100\<bar> \<le> 1 / 2"
    using Npos by (simp only: mult_le_cancel_left_pos)
  moreover have "Math_round (js_times100 (js_div_len (Num (of_nat k)) n)) = Num (of_int ?r)"
    using n0 y1(1) y2(1) by (simp add: X_def)
  ultimately show ?thesis
    unfolding X_def by blast
qed

section \<open>Properties of the statistics\<close>

lemma stats_of_fields:
  "stats_id (stats_of pid q) = pid"
  "total_revenue (stats_of pid q) = totalRevenue (rdata (payments_q q))"
  "pending_payments (stats_of pid q) = pendingPayments (rdata (payments_q q))"
  "overdue_payments (stats_of pid q) = overduePayments (rdata (payments_q q))"
  "monthly_revenue (stats_of pid q) = monthlyRevenue (now q) (rdata (payments_q q))"
  "yearly_revenue (stats_of pid q) = yearlyRevenue (now q) (rdata (payments_q q))"
  "occupancy_rate (stats_of pid q) = occupancyRate (rdata (rooms_q q))"
  "avg_room_price (stats_of pid q) = avgRoomPrice (rdata (rooms_q q))"
  "tenant_turnover_rate (stats_of pid q) =
     Math_round (turnoverRate (rdata (historical_q q)) (rdata (tenants_q q)))"
  by (simp_all add: stats_of_def Let_def)

subsection \<open>Turnover rate\<close>

text \<open>
  With a tenant on either side the rate is the share of inactive tenants, in percent,
  rounded to an integer at distance at most one half.
\<close>

lemma turnover_rate_some_tenant:
  assumes "0 < length h + length (activeTenants ts)"
    and "length h + length (activeTenants ts) < 2 ^ 32"
  shows "\<exists>r::int. Math_round (turnoverRate (Some h) ts) = Num (of_int r) \<and>
           \<bar>of_int r - of_nat (length h) / of_nat (length h + length (activeTenants ts)) * 100\<bar>
             \<le> (1 / 2 :: rat)"
  using percent_nearest[OF assms(1) _ assms(2), of "length h"]
  by (simp add: turnoverRate_def)

text \<open>
  Claim C1: a property with no inactive and no active tenant should get the turnover
  rate 0. The code divides 0 by 0 there: the guard of \<^verbatim>\<open>turnoverRate\<close> tests the array
  of inactive tenants, which is truthy when empty, so the stored rate of such a property
  is \<^verbatim>\<open>NaN\<close>.
\<close>

theorem turnover_rate_no_tenants_is_NaN:
  "tenant_turnover_rate (stats_of ''p1'' empty_property) = NaN"
  by (simp add: stats_of_fields empty_property_def turnoverRate_def activeTenants_def)

subsection \<open>Rooms\<close>

lemma no_rooms_zero:
  "ro = None \<or> ro = Some [] \<Longrightarrow> occupancyRate ro = Num 0 \<and> avgRoomPrice ro = Num 0"
  by (auto simp: occupancyRate_def avgRoomPrice_def totalRooms_def len0_def)

lemma some_rooms_occupancy:
  assumes "rs \<noteq> []" "length rs < 2 ^ 32"
  shows "\<exists>r::int. occupancyRate (Some rs) = Num (of_int r) \<and>
           \<bar>of_int r - occupied_share rs\<bar> \<le> 1 / 2"
proof -
  have "0 < length rs"
    using assms(1) by simp
  from percent_nearest[OF this _ assms(2), of "length (filter (\<lambda>r. r_status r = ''occupied'') rs)"]
  show ?thesis
    using assms(1)
    by (simp add: occupancyRate_def totalRooms_def occupiedRooms_def len0_def occupied_share_def)
qed

lemma some_rooms_average:
  assumes "rs \<noteq> []" "whole_within (map r_price rs)"
  shows "avgRoomPrice (Some rs) = fl64 ((\<Sum>r\<leftarrow>rs. num_val (r_price r)) / of_nat (length rs))"
proof -
  have "foldl (\<lambda>sum room. js_add sum (r_price room)) (Num 0) rs = js_sum (map r_price rs)"
    by (simp add: js_sum_def foldl_map)
  also have "\<dots> = Num (\<Sum>r\<leftarrow>rs. num_val (r_price r))"
    using js_sum_whole[OF assms(2)] by (simp add: comp_def)
  finally show ?thesis
    using assms(1) by (simp add: avgRoomPrice_def totalRooms_def len0_def or0_fl64)
qed

text \<open>
  Claim C3: when the rooms query of a property gives no rooms (an empty array, or null
  data), its occupancy rate and its average room price are both 0. With at least one room
  (an array has fewer than \<open>2 ^ 32\<close> elements), the occupancy rate is an integer at distance
  at most one half from the exact percentage of occupied rooms; and when the prices are
  whole numbers whose magnitudes add up to at most \<open>2 ^ 53\<close>, the average room price is
  the sum of the prices divided by the number of rooms, rounded to the nearest double.
\<close>

theorem rooms_rates:
  "(rdata (rooms_q q) = None \<or> rdata (rooms_q q) = Some [] \<longrightarrow>
      occupancy_rate (stats_of pid q) = Num 0 \<and> avg_room_price (stats_of pid q) = Num 0) \<and>
   (rdata (rooms_q q) = Some rs \<and> rs \<noteq> [] \<and> length rs < 2 ^ 32 \<longrightarrow>
      (\<exists>r::int. occupancy_rate (stats_of pid q) = Num (of_int r) \<and>
         \<bar>of_int r - occupied_share rs\<bar> \<le> 1 / 2)) \<and>
   (rdata (rooms_q q) = Some rs \<and> rs \<noteq> [] \<and> length rs < 2 ^ 32 \<and>
    whole_within (map r_price rs) \<longrightarrow>
      avg_room_price (stats_of pid q) =
        fl64 ((\<Sum>r\<leftarrow>rs. num_val (r_price r)) / of_nat (length rs)))"
proof (intro conjI impI)
  assume z: "rdata (rooms_q q) = None \<or> rdata (rooms_q q) = Some []"
  from no_rooms_zero[OF z] show "occupancy_rate (stats_of pid q) = Num 0"
    and "avg_room_price (stats_of pid q) = Num 0"
    by (simp_all add: stats_of_fields)
next
  assume h: "rdata (rooms_q q) = Some rs \<and> rs \<noteq> [] \<and> length rs < 2 ^ 32"
  then have "rs \<noteq> []" "length rs < 2 ^ 32"
    by simp_all
  from some_rooms_occupancy[OF this] h
  show "\<exists>r::int. occupancy_rate (stats_of pid q) = Num (of_int r) \<and>
          \<bar>of_int r - occupied_share rs\<bar> \<le> 1 / 2"
    by (simp add: stats_of_fields)
next
  assume h: "rdata (rooms_q q) = Some rs \<and> rs \<noteq> [] \<and> length rs < 2 ^ 32 \<and>
    whole_within (map r_price rs)"
  then have "rs \<noteq> []" "whole_within (map r_price rs)"
    by simp_all
  from some_rooms_average[OF this] h
  show "avg_room_price (stats_of pid q) =
          fl64 ((\<Sum>r\<leftarrow>rs. num_val (r_price r)) / of_nat (length rs))"
    by (simp add: stats_of_fields)
qed

text \<open>
  23 occupied rooms of 40 are 57.5 percent; the doubles give
  \<^verbatim>\<open>(23 / 40) * 100 = 57.49999999999999\<close>, which rounds to 57. The mean of 400000, 500000
  and 600001 is stored as the double \<^verbatim>\<open>500000.3333333333\<close>.
\<close>

lemma occupancy_forty_rooms: "occupancyRate (Some forty_rooms) = Num 57"
  by code_simp

lemma mean_three_rooms: "fl64 (1500001 / 3) = Num (8589940318623061 / 17179869184)"
  by code_simp

theorem rooms_rates_witness:
  "occupancy_rate (stats_of ''p1'' empty_property) = Num 0 \<and>
   avg_room_price (stats_of ''p1'' empty_property) = Num 0 \<and>
   (\<exists>r::int. occupancy_rate
       (stats_of ''p1'' (empty_property\<lparr> rooms_q := Response (Some forty_rooms) None \<rparr>))
         = Num (of_int r) \<and> \<bar>of_int r - (115 / 2 :: rat)\<bar> \<le> 1 / 2) \<and>
   occupancy_rate
     (stats_of ''p1'' (empty_property\<lparr> rooms_q := Response (Some forty_rooms) None \<rparr>)) = Num 57 \<and>
   avg_room_price
     (stats_of ''p1'' (empty_property\<lparr> rooms_q := Response (Some three_rooms) None \<rparr>))
     = Num (8589940318623061 / 17179869184)"
proof -
  have share: "occupied_share forty_rooms = 115 / 2"
    by (simp add: occupied_share_def forty_rooms_def)
  have whole: "whole_within (map r_price three_rooms)"
    by (simp add: whole_within_def is_whole_def three_rooms_def)
  have mean: "(\<Sum>r\<leftarrow>three_rooms. num_val (r_price r)) / of_nat (length three_rooms) = 1500001 / 3"
    by (simp add: three_rooms_def)
  have len: "forty_rooms \<noteq> []" "length forty_rooms < 2 ^ 32"
    "three_rooms \<noteq> []" "length three_rooms < 2 ^ 32"
    by (simp_all add: forty_rooms_def three_rooms_def)
  show ?thesis
    using rooms_rates[of empty_property "''p1''" three_rooms]
      rooms_rates[of "empty_property\<lparr> rooms_q := Response (Some forty_rooms) None \<rparr>"
                     "''p1''" forty_rooms]
      rooms_rates[of "empty_property\<lparr> rooms_q := Response (Some three_rooms) None \<rparr>"
                     "''p1''" three_rooms]
      share whole mean len occupancy_forty_rooms mean_three_rooms
    by (simp add: empty_property_def stats_of_fields)
qed

subsection \<open>Payments\<close>

text \<open>The conditional \<^verbatim>\<open>reduce\<close> adds the amounts of the payments of the one status.\<close>

lemma sum_status_filter:
  "sum_status st ps = js_sum (map pay_amount (filter (\<lambda>p. pay_status p = st) ps))"
proof -
  have "foldl (\<lambda>sum payment.
                 if pay_status payment = st then js_add sum (pay_amount payment) else sum) a ps
        = foldl js_add a (map pay_amount (filter (\<lambda>p. pay_status p = st) ps))" for a
    by (induction ps arbitrary: a) simp_all
  then show ?thesis by (simp add: sum_status_def js_sum_def)
qed

lemma sum_status_counted:
  assumes "st = ''paid'' \<or> st = ''pending'' \<or> st = ''overdue''"
  shows "sum_status st (filter counted_status ps) = sum_status st ps"
proof -
  have "filter (\<lambda>p. pay_status p = st) (filter counted_status ps)
        = filter (\<lambda>p. pay_status p = st) ps"
    using assms by (induction ps) (auto simp: counted_status_def)
  then show ?thesis by (simp add: sum_status_filter)
qed

lemma sum_status_whole:
  assumes "whole_within (map pay_amount ps)"
  shows "sum_status st ps = Num (amount_with (\<lambda>p. pay_status p = st) ps)"
  using js_sum_whole[OF whole_within_filter[OF assms, of "\<lambda>p. pay_status p = st"]]
  by (simp add: sum_status_filter amount_with_def comp_def)

text \<open>
  Claim C4: for the payment rows of a property, the total revenue is the sum, as
  JavaScript adds it, of the amounts of exactly the payments with status \<^verbatim>\<open>paid\<close>, the
  pending sum that of exactly those with status \<^verbatim>\<open>pending\<close>, the overdue sum that of
  exactly those with status \<^verbatim>\<open>overdue\<close>; dropping every payment of another status
  changes none of the three. When the amounts are whole numbers whose magnitudes add up
  to at most \<open>2 ^ 53\<close>, each is the exact sum.
\<close>

theorem payment_sums_by_status:
  assumes "rdata (payments_q q) = Some ps"
  shows "total_revenue (stats_of pid q) =
           or0 (js_sum (map pay_amount (filter (\<lambda>p. pay_status p = ''paid'') ps))) \<and>
         pending_payments (stats_of pid q) =
           or0 (js_sum (map pay_amount (filter (\<lambda>p. pay_status p = ''pending'') ps))) \<and>
         overdue_payments (stats_of pid q) =
           or0 (js_sum (map pay_amount (filter (\<lambda>p. pay_status p = ''overdue'') ps))) \<and>
         total_revenue
           (stats_of pid (q\<lparr> payments_q := Response (Some (filter counted_status ps)) None \<rparr>))
           = total_revenue (stats_of pid q) \<and>
         pending_payments
           (stats_of pid (q\<lparr> payments_q := Response (Some (filter counted_status ps)) None \<rparr>))
           = pending_payments (stats_of pid q) \<and>
         overdue_payments
           (stats_of pid (q\<lparr> payments_q := Response (Some (filter counted_status ps)) None \<rparr>))
           = overdue_payments (stats_of pid q) \<and>
         (whole_within (map pay_amount ps) \<longrightarrow>
            total_revenue (stats_of pid q) =
              Num (amount_with (\<lambda>p. pay_status p = ''paid'') ps) \<and>
            pending_payments (stats_of pid q) =
              Num (amount_with (\<lambda>p. pay_status p = ''pending'') ps) \<and>
            overdue_payments (stats_of pid q) =
              Num (amount_with (\<lambda>p. pay_status p = ''overdue'') ps))"
  using assms
  by (auto simp: stats_of_fields totalRevenue_def pendingPayments_def overduePayments_def
        sum_status0_def sum_status_counted sum_status_filter[symmetric] sum_status_whole)

theorem payment_sums_by_status_witness:
  "total_revenue
     (stats_of ''p1'' (empty_property\<lparr> payments_q := Response (Some five_payments) None \<rparr>))
     = Num 300 \<and>
   pending_payments
     (stats_of ''p1'' (empty_property\<lparr> payments_q := Response (Some five_payments) None \<rparr>))
     = Num 50 \<and>
   overdue_payments
     (stats_of ''p1'' (empty_property\<lparr> payments_q := Response (Some five_payments) None \<rparr>))
     = Num 25"
proof -
  let ?q = "empty_property\<lparr> payments_q := Response (Some five_payments) None \<rparr>"
  have d: "rdata (payments_q ?q) = Some five_payments"
    by simp
  have w: "whole_within (map pay_amount five_payments)"
    by (simp add: five_payments_def payment_def whole_within_def is_whole_def)
  from payment_sums_by_status[OF d, of "''p1''"] w
  have "total_revenue (stats_of ''p1'' ?q) =
          Num (amount_with (\<lambda>p. pay_status p = ''paid'') five_payments) \<and>
        pending_payments (stats_of ''p1'' ?q) =
          Num (amount_with (\<lambda>p. pay_status p = ''pending'') five_payments) \<and>
        overdue_payments (stats_of ''p1'' ?q) =
          Num (amount_with (\<lambda>p. pay_status p = ''overdue'') five_payments)"
    by blast
  moreover have "amount_with (\<lambda>p. pay_status p = ''paid'') five_payments = 300"
    "amount_with (\<lambda>p. pay_status p = ''pending'') five_payments = 50"
    "amount_with (\<lambda>p. pay_status p = ''overdue'') five_payments = 25"
    by (simp_all add: five_payments_def payment_def amount_with_def)
  ultimately show ?thesis
    by simp
qed

lemma dated_revenue_js_sum:
  "sum_status ''paid'' (filter (dated_from start) ps)
   = js_sum (map pay_amount
       (filter (\<lambda>p. pay_status p = ''paid'' \<and>
                  (case pay_date p of None \<Rightarrow> False | Some d \<Rightarrow> date_ge d start)) ps))"
  by (simp add: sum_status_filter dated_from_def conj_commute)

lemma dated_revenue_whole:
  assumes "whole_within (map pay_amount ps)"
  shows "sum_status ''paid'' (filter (dated_from start) ps)
         = Num (amount_with (\<lambda>p. pay_status p = ''paid'' \<and>
                  (case pay_date p of None \<Rightarrow> False | Some d \<Rightarrow> date_ge d start)) ps)"
  using sum_status_whole[OF whole_within_filter[OF assms, of "dated_from start"], of "''paid''"]
  by (simp add: amount_with_def dated_from_def conj_commute)

text \<open>
  Claim C5, as the code has it: the monthly revenue is the sum, as JavaScript adds it, of
  the amounts of the paid payments whose date is readable and not before the first day of
  the current month, the yearly revenue the same from the first day of the current year.
  Neither window ends at the current moment; a payment with no date is in neither. When
  the amounts are whole numbers whose magnitudes add up to at most \<open>2 ^ 53\<close>, each is the
  exact sum.
\<close>

theorem revenue_from_period_start:
  assumes "rdata (payments_q q) = Some ps"
  shows "monthly_revenue (stats_of pid q) =
           js_sum (map pay_amount
             (filter (\<lambda>p. pay_status p = ''paid'' \<and>
                (case pay_date p of None \<Rightarrow> False
                 | Some d \<Rightarrow> date_ge d (monthStart (now q)))) ps)) \<and>
         yearly_revenue (stats_of pid q) =
           js_sum (map pay_amount
             (filter (\<lambda>p. pay_status p = ''paid'' \<and>
                (case pay_date p of None \<Rightarrow> False
                 | Some d \<Rightarrow> date_ge d (yearStart (now q)))) ps)) \<and>
         (whole_within (map pay_amount ps) \<longrightarrow>
            monthly_revenue (stats_of pid q) =
              Num (amount_with (\<lambda>p. pay_status p = ''paid'' \<and>
                     (case pay_date p of None \<Rightarrow> False
                      | Some d \<Rightarrow> date_ge d (monthStart (now q)))) ps) \<and>
            yearly_revenue (stats_of pid q) =
              Num (amount_with (\<lambda>p. pay_status p = ''paid'' \<and>
                     (case pay_date p of None \<Rightarrow> False
                      | Some d \<Rightarrow> date_ge d (yearStart (now q)))) ps))"
proof (intro conjI impI)
  show "monthly_revenue (stats_of pid q) =
           js_sum (map pay_amount
             (filter (\<lambda>p. pay_status p = ''paid'' \<and>
                (case pay_date p of None \<Rightarrow> False
                 | Some d \<Rightarrow> date_ge d (monthStart (now q)))) ps))"
    using assms
    by (simp add: stats_of_fields monthlyRevenue_def monthlyPayments_def dated_revenue_js_sum)
  show "yearly_revenue (stats_of pid q) =
           js_sum (map pay_amount
             (filter (\<lambda>p. pay_status p = ''paid'' \<and>
                (case pay_date p of None \<Rightarrow> False
                 | Some d \<Rightarrow> date_ge d (yearStart (now q)))) ps))"
    using assms
    by (simp add: stats_of_fields yearlyRevenue_def yearlyPayments_def dated_revenue_js_sum)
next
  assume w: "whole_within (map pay_amount ps)"
  show "monthly_revenue (stats_of pid q) =
              Num (amount_with (\<lambda>p. pay_status p = ''paid'' \<and>
                     (case pay_date p of None \<Rightarrow> False
                      | Some d \<Rightarrow> date_ge d (monthStart (now q)))) ps)"
    using assms dated_revenue_whole[OF w]
    by (simp add: stats_of_fields monthlyRevenue_def monthlyPayments_def)
  show "yearly_revenue (stats_of pid q) =
              Num (amount_with (\<lambda>p. pay_status p = ''paid'' \<and>
                     (case pay_date p of None \<Rightarrow> False
                      | Some d \<Rightarrow> date_ge d (yearStart (now q)))) ps)"
    using assms dated_revenue_whole[OF w]
    by (simp add: stats_of_fields yearlyRevenue_def yearlyPayments_def)
qed

theorem revenue_from_period_start_witness:
  "monthly_revenue
     (stats_of ''p1'' (empty_property\<lparr> payments_q := Response (Some dated_payments) None \<rparr>))
     = Num 170 \<and>
   yearly_revenue
     (stats_of ''p1'' (empty_property\<lparr> payments_q := Response (Some dated_payments) None \<rparr>))
     = Num 210"
proof -
  let ?q = "empty_property\<lparr> payments_q := Response (Some dated_payments) None \<rparr>"
  have d: "rdata (payments_q ?q) = Some dated_payments"
    by simp
  have w: "whole_within (map pay_amount dated_payments)"
    by (simp add: dated_payments_def payment_def whole_within_def is_whole_def)
  from revenue_from_period_start[OF d, of "''p1''"] w
  have "monthly_revenue (stats_of ''p1'' ?q) =
          Num (amount_with (\<lambda>p. pay_status p = ''paid'' \<and>
                 (case pay_date p of None \<Rightarrow> False
                  | Some d \<Rightarrow> date_ge d (monthStart (now ?q)))) dated_payments) \<and>
        yearly_revenue (stats_of ''p1'' ?q) =
          Num (amount_with (\<lambda>p. pay_status p = ''paid'' \<and>
                 (case pay_date p of None \<Rightarrow> False
                  | Some d \<Rightarrow> date_ge d (yearStart (now ?q)))) dated_payments)"
    by blast
  moreover have "amount_with (\<lambda>p. pay_status p = ''paid'' \<and>
                 (case pay_date p of None \<Rightarrow> False
                  | Some d \<Rightarrow> date_ge d (monthStart (now ?q)))) dated_payments = 170"
    "amount_with (\<lambda>p. pay_status p = ''paid'' \<and>
                 (case pay_date p of None \<Rightarrow> False
                  | Some d \<Rightarrow> date_ge d (yearStart (now ?q)))) dated_payments = 210"
    by (simp_all add: empty_property_def dated_payments_def payment_def amount_with_def
          monthStart_def yearStart_def)
  ultimately show ?thesis
    by simp
qed

text \<open>
  The claim as worded fails on a paid payment dated after the current moment: on 15 May
  the payment of 70 dated in November is in the monthly and the yearly revenue of the
  code, and in neither sum "to date".
\<close>

theorem revenue_to_date_counterexample:
  "monthly_revenue
     (stats_of ''p1'' (empty_property\<lparr> payments_q := Response (Some dated_payments) None \<rparr>))
     = Num 170 \<and>
   month_to_date_revenue (now empty_property) dated_payments = Num 100 \<and>
   yearly_revenue
     (stats_of ''p1'' (empty_property\<lparr> payments_q := Response (Some dated_payments) None \<rparr>))
     = Num 210 \<and>
   year_to_date_revenue (now empty_property) dated_payments = Num 140"
proof -
  have "whole_within (map pay_amount dated_payments)"
    by (simp add: dated_payments_def payment_def whole_within_def is_whole_def)
  from dated_revenue_whole[OF this] show ?thesis
    by (simp add: stats_of_fields monthlyRevenue_def yearlyRevenue_def monthlyPayments_def
        yearlyPayments_def empty_property_def dated_payments_def payment_def amount_with_def
        monthStart_def yearStart_def month_to_date_revenue_def year_to_date_revenue_def
        in_window_def)
qed

section \<open>Properties of the list load\<close>

lemma collect_stats_lookup:
  "collect_stats qs ps pid =
     (if pid \<in> p_id ` set ps then Some (stats_of pid (qs pid)) else None)"
proof -
  have "foldl (\<lambda>stats p. stats(p_id p \<mapsto> stats_of (p_id p) (qs (p_id p)))) m ps pid =
          (if pid \<in> p_id ` set ps then Some (stats_of pid (qs pid)) else m pid)" for m
    by (induction ps arbitrary: m) auto
  then show ?thesis by (simp add: collect_stats_def)
qed

lemma dom_collect_stats: "dom (collect_stats qs ps) = p_id ` set ps"
  by (auto simp: dom_def collect_stats_lookup)

lemma property_with_owner: "map (property \<circ> with_owner us) ps = ps"
  by (induction ps) (simp_all add: with_owner_def)

lemma loaded_stats:
  assumes "rerror (properties_a la) = None"
    and "rerror (backoffice_a la (ownerIds (rdata (properties_a la)))) = None"
  shows "propertyStats (loadProperties s0 la) pid =
           (if pid \<in> p_id ` set (or_empty (rdata (properties_a la)))
            then Some (stats_of pid (queries_a la pid)) else None)"
  using assms
  by (simp add: loadProperties_def loadProperties_try_def Let_def collect_stats_lookup)

text \<open>
  The first two queries do abort the load: when the query of the properties or the owner
  query fails, the load ends with the message \<^verbatim>\<open>Failed to load properties\<close>, the loading
  flag cleared, and the property list and the statistics of the state as they were before
  the load. When both succeed the load ends with no message, whatever the queries of the
  iterations answered.
\<close>

lemma list_load_first_queries:
  "(rerror (properties_a a) \<noteq> None \<or>
    rerror (backoffice_a a (ownerIds (rdata (properties_a a)))) \<noteq> None \<longrightarrow>
      error (loadProperties s a) = Some ''Failed to load properties'' \<and>
      \<not> isLoading (loadProperties s a) \<and>
      properties (loadProperties s a) = properties s \<and>
      propertyStats (loadProperties s a) = propertyStats s) \<and>
   (rerror (properties_a a) = None \<and>
    rerror (backoffice_a a (ownerIds (rdata (properties_a a)))) = None \<longrightarrow>
      error (loadProperties s a) = None \<and>
      \<not> isLoading (loadProperties s a) \<and>
      map property (properties (loadProperties s a)) = or_empty (rdata (properties_a a)) \<and>
      dom (propertyStats (loadProperties s a)) = p_id ` set (or_empty (rdata (properties_a a))))"
  by (auto simp: loadProperties_def loadProperties_try_def Let_def property_with_owner
        dom_collect_stats split: option.splits)

text \<open>
  Claim C2: the failure of any query of the list load should abort the load, with the
  message \<^verbatim>\<open>Failed to load properties\<close> and no partial result kept. The five queries of
  an iteration never have their \<^verbatim>\<open>error\<close> read, unlike the two queries before the loop
  and the four of the detail loader: here the rooms query of the one property (and each
  other query of its iteration) answers with an error, and the load ends with no message,
  the property in the list and statistics of zeros stored for it.
\<close>

theorem list_load_child_failure_unreported:
  "rerror (rooms_q (queries_a children_fail ''p1'')) = Some ''timeout'' \<and>
   error (loadProperties initial_state children_fail) = None \<and>
   map property (properties (loadProperties initial_state children_fail)) = [kost_melati] \<and>
   map_option occupancy_rate (propertyStats (loadProperties initial_state children_fail) ''p1'')
     = Some (Num 0)"
  by (simp add: loadProperties_def loadProperties_try_def Let_def children_fail_def
        initial_state_def or_empty_def ownerIds_def with_owner_def collect_stats_def
        kost_melati_def failed_queries_def stats_of_fields occupancyRate_def totalRooms_def
        len0_def)

section \<open>Properties of the detail load\<close>

lemma detail_try_error:
  assumes "rerror (property_d a) \<noteq> None \<or> rerror (rooms_d a) \<noteq> None \<or>
           rerror (tenants_d a) \<noteq> None \<or> rerror (payments_d a) \<noteq> None"
  shows "\<exists>e. loadPropertyDetails_try s pid a = Inl e"
  using assms by (auto simp: loadPropertyDetails_try_def split: option.splits)

lemma detail_success:
  assumes "rerror (property_d a) = None" "rerror (rooms_d a) = None"
    "rerror (tenants_d a) = None" "rerror (payments_d a) = None"
    "rdata (property_d a) = Some pj"
  shows "selectedProperty (handleViewDetails s pid a) = Some
           \<lparr> property = j_property pj,
             owner_email = Option.bind (j_users pj) u_email,
             owner_name =
               str_or (Option.bind (j_users pj) u_name) (Option.bind (j_users pj) u_email),
             stats = propertyStats s pid,
             tenants = rdata (tenants_d a),
             rooms = rdata (rooms_d a),
             payments = rdata (payments_d a) \<rparr>"
    and "showPropertyDetails (handleViewDetails s pid a) = Some pid"
    and "error (handleViewDetails s pid a) = None"
  using assms
  by (simp_all add: handleViewDetails_def loadPropertyDetails_def loadPropertyDetails_try_def)

text \<open>
  Claim C8: when one of the four queries of the detail loader answers with an error, the
  selected property is null afterwards, the message is
  \<^verbatim>\<open>Failed to load property details\<close> and the loading flag is cleared.
\<close>

theorem detail_load_failure:
  assumes "rerror (property_d a) \<noteq> None \<or> rerror (rooms_d a) \<noteq> None \<or>
           rerror (tenants_d a) \<noteq> None \<or> rerror (payments_d a) \<noteq> None"
  shows "selectedProperty (handleViewDetails s pid a) = None \<and>
         error (handleViewDetails s pid a) = Some ''Failed to load property details'' \<and>
         \<not> isLoading (handleViewDetails s pid a)"
proof -
  obtain e where "loadPropertyDetails_try
      (s\<lparr> showPropertyDetails := Some pid, isLoading := True, error := None \<rparr>) pid a = Inl e"
    using detail_try_error[OF assms] by blast
  then show ?thesis
    by (simp add: handleViewDetails_def loadPropertyDetails_def)
qed

theorem detail_load_failure_witness:
  "selectedProperty (handleViewDetails initial_state ''p1'' detail_rooms_fail) = None \<and>
   error (handleViewDetails initial_state ''p1'' detail_rooms_fail)
     = Some ''Failed to load property details'' \<and>
   \<not> isLoading (handleViewDetails initial_state ''p1'' detail_rooms_fail)"
  using detail_load_failure[of detail_rooms_fail initial_state "''p1''"]
  by (simp add: detail_rooms_fail_def detail_ok_def)

text \<open>
  Claim C9: after a detail load in which no query fails and the property is found, the
  statistics of the selected property are the entry that the state holds for the property
  id, whatever rooms, tenants and payments the detail load fetched; when the state comes
  from a list load that read this property, the entry is the one that load computed from
  the answers of its own iteration.
\<close>

theorem detail_stats_reused:
  assumes "rerror (property_d a) = None" "rerror (rooms_d a) = None"
    "rerror (tenants_d a) = None" "rerror (payments_d a) = None"
    "rdata (property_d a) = Some pj"
  shows "map_option stats (selectedProperty (handleViewDetails s pid a))
           = Some (propertyStats s pid) \<and>
         (s = loadProperties s0 la \<and> rerror (properties_a la) = None \<and>
          rerror (backoffice_a la (ownerIds (rdata (properties_a la)))) = None \<and>
          pid \<in> p_id ` set (or_empty (rdata (properties_a la))) \<longrightarrow>
            map_option stats (selectedProperty (handleViewDetails s pid a))
              = Some (Some (stats_of pid (queries_a la pid))))"
proof (intro conjI impI)
  show sel: "map_option stats (selectedProperty (handleViewDetails s pid a))
               = Some (propertyStats s pid)"
    using detail_success(1)[OF assms, of s pid] by simp
  assume h: "s = loadProperties s0 la \<and> rerror (properties_a la) = None \<and>
          rerror (backoffice_a la (ownerIds (rdata (properties_a la)))) = None \<and>
          pid \<in> p_id ` set (or_empty (rdata (properties_a la)))"
  then have "propertyStats s pid = Some (stats_of pid (queries_a la pid))"
    using loaded_stats[of la s0 pid] by simp
  with sel show "map_option stats (selectedProperty (handleViewDetails s pid a))
                   = Some (Some (stats_of pid (queries_a la pid)))"
    by simp
qed

text \<open>
  The list load saw three rooms; the detail load fetches none, and the statistics shown
  are still those of the three rooms.
\<close>

theorem detail_stats_reused_witness:
  "map_option stats
     (selectedProperty (handleViewDetails (loadProperties initial_state listed) ''p1'' detail_ok))
   = Some (Some (stats_of ''p1''
                   (empty_property\<lparr> rooms_q := Response (Some three_rooms) None \<rparr>)))"
  using detail_stats_reused[of detail_ok melati_joined
              "loadProperties initial_state listed" "''p1''" initial_state listed]
  by (simp add: detail_ok_def listed_def ownerIds_def or_empty_def kost_melati_def)

section \<open>Properties of the owner cross-reference\<close>

lemma property_of_with_owner: "property (with_owner us p) = p"
  by (simp add: with_owner_def)

text \<open>
  Looking an owner up in the answer of the owner query is looking it up in the table and
  keeping the two selected columns.
\<close>

lemma find_backoffice_users_query:
  assumes "oid \<in> set ids"
  shows "find (\<lambda>u. u ''user_id'' = Some oid) (backoffice_users_query tbl ids)
         = map_option (select_columns [''user_id'', ''role''])
             (find (\<lambda>u. u ''user_id'' = Some oid) tbl)"
  using assms
  by (induction tbl)
     (auto simp: backoffice_users_query_def select_columns_def split: option.splits)

lemma with_owner_query:
  assumes "p_owner_id p \<in> set ids"
  shows "owner_email (with_owner (Some (backoffice_users_query tbl ids)) p) = Some ''Unknown''"
    and "owner_name (with_owner (Some (backoffice_users_query tbl ids)) p)
           = truthy_role_or_unknown tbl p"
proof -
  let ?hit = "find (\<lambda>u. u ''user_id'' = Some (p_owner_id p)) tbl"
  note q = find_backoffice_users_query[OF assms, of tbl]
  show "owner_email (with_owner (Some (backoffice_users_query tbl ids)) p) = Some ''Unknown''"
    using q by (cases ?hit) (simp_all add: with_owner_def backofficeUser_def select_columns_def)
  show "owner_name (with_owner (Some (backoffice_users_query tbl ids)) p)
          = truthy_role_or_unknown tbl p"
  proof (cases ?hit)
    case None
    with q show ?thesis
      by (simp add: with_owner_def backofficeUser_def truthy_role_or_unknown_def)
  next
    case (Some u)
    with q show ?thesis
      by (cases "u ''role''")
         (simp_all add: with_owner_def backofficeUser_def truthy_role_or_unknown_def
            select_columns_def)
  qed
qed

text \<open>
  Claim C10, as the code has it: after a list load whose owner query is answered from the
  table of backoffice users, the owner email of every property in the list is
  \<^verbatim>\<open>Unknown\<close>, since the answer carries no email column; the owner name is the role of
  the first backoffice user whose id is the owner id of the property, and \<^verbatim>\<open>Unknown\<close>
  when there is no such user or its role is null or empty.
\<close>

theorem owner_fields_after_load:
  assumes "rerror (properties_a a) = None"
    and "backoffice_a a (ownerIds (rdata (properties_a a)))
           = Response (Some (backoffice_users_query tbl (ownerIds (rdata (properties_a a))))) None"
  shows "\<forall>p \<in> set (properties (loadProperties s a)).
           owner_email p = Some ''Unknown'' \<and>
           owner_name p = truthy_role_or_unknown tbl (property p)"
  using assms
  by (auto simp: loadProperties_def loadProperties_try_def Let_def with_owner_query ownerIds_def
        property_of_with_owner)

theorem owner_fields_after_load_witness:
  "map owner_email (properties (loadProperties initial_state (listed_with staff)))
     = [Some ''Unknown''] \<and>
   map owner_name (properties (loadProperties initial_state (listed_with staff)))
     = [Some ''superadmin'']"
proof -
  have "properties (loadProperties initial_state (listed_with staff))
        = [with_owner (Some (backoffice_users_query staff [''u1''])) kost_melati]"
    by (simp add: loadProperties_def loadProperties_try_def Let_def listed_with_def
          ownerIds_def or_empty_def kost_melati_def)
  moreover have "truthy_role_or_unknown staff kost_melati = Some ''superadmin''"
    by (simp add: truthy_role_or_unknown_def staff_def backoffice_row_def kost_melati_def)
  ultimately show ?thesis
    using owner_fields_after_load[of "listed_with staff" staff initial_state]
    by (simp add: listed_with_def with_owner_def)
qed

text \<open>
  The claim as worded fails for an owner whose role is the empty string: a backoffice user
  matches, its role is empty, and the owner name is \<^verbatim>\<open>Unknown\<close>.
\<close>

theorem owner_name_blank_role_counterexample:
  "map owner_name (properties (loadProperties initial_state (listed_with staff_blank_role)))
     = [Some ''Unknown''] \<and>
   role_or_unknown staff_blank_role kost_melati = Some []"
  by (simp add: loadProperties_def loadProperties_try_def Let_def listed_with_def
        ownerIds_def or_empty_def kost_melati_def with_owner_def backofficeUser_def
        backoffice_users_query_def select_columns_def staff_blank_role_def backoffice_row_def
        role_or_unknown_def)

section \<open>Properties of the view\<close>

subsection \<open>Search\<close>












text \<open>
  The query \<^verbatim>\<open>CAF\<close> followed by a capital E with acute (U+00C9) is found in
  \<^verbatim>\<open>Caf\<close>, small e with acute (U+00E9), \<^verbatim>\<open> Kost\<close>.
\<close>

lemma accented_query_found:
  "js_includes (toLowerCase (''Caf'' @ [char_of (233 :: nat)] @ '' Kost''))
     (toLowerCase (''CAF'' @ [char_of (201 :: nat)]))"
  by code_simp



subsection \<open>Recent activity\<close>

lemma payments_query_set:
  "set (payments_query tbl pid) = {p \<in> set tbl. pay_property_id p = pid}"
  by (auto simp: payments_query_def)

lemma payments_query_newest_first:
  "sorted_wrt (\<lambda>x y. pay_created_at y \<le> pay_created_at x) (payments_query tbl pid)"
proof -
  let ?xs = "sort_key pay_created_at (filter (\<lambda>p. pay_property_id p = pid) tbl)"
  have "sorted (map pay_created_at ?xs)"
    by simp
  then have "sorted_wrt (\<lambda>x y. pay_created_at x \<le> pay_created_at y) ?xs"
    by (simp add: sorted_wrt_map)
  then show ?thesis
    by (simp add: payments_query_def sorted_wrt_rev)
qed

text \<open>In a list ordered newest first, nothing after the first \<open>n\<close> is newer than one of them.\<close>

lemma newest_first_take_drop:
  assumes "sorted_wrt (\<lambda>x y. pay_created_at y \<le> pay_created_at x) xs"
    and "x \<in> set (take n xs)" "y \<in> set (drop n xs)"
  shows "pay_created_at y \<le> pay_created_at x"
proof -
  have "sorted_wrt (\<lambda>x y. pay_created_at y \<le> pay_created_at x) (take n xs @ drop n xs)"
    using assms(1) by simp
  with assms(2,3) show ?thesis
    unfolding sorted_wrt_append by blast
qed

text \<open>
  Claim C7: after a detail load whose payments query is answered from the payments table,
  the Recent Activity list has at most 5 payments; it is the first 5 of the payments of
  the property in descending order of \<^verbatim>\<open>created_at\<close>, so no payment of the property that is
  left out was created later than one that is shown.
\<close>

theorem recent_activity_newest_five:
  assumes "rerror (property_d a) = None" "rerror (rooms_d a) = None"
    "rerror (tenants_d a) = None"
    "payments_d a = Response (Some (payments_query tbl pid)) None"
    "rdata (property_d a) = Some pj"
  shows "length (recentActivity (handleViewDetails s pid a)) \<le> 5 \<and>
         recentActivity (handleViewDetails s pid a)
           = (if pid = [] then [] else take 5 (payments_query tbl pid)) \<and>
         set (payments_query tbl pid) = {p \<in> set tbl. pay_property_id p = pid} \<and>
         sorted_wrt (\<lambda>x y. pay_created_at y \<le> pay_created_at x) (payments_query tbl pid) \<and>
         (\<forall>x \<in> set (recentActivity (handleViewDetails s pid a)).
            \<forall>y \<in> set (drop 5 (payments_query tbl pid)).
              pay_created_at y \<le> pay_created_at x)"
proof -
  have e: "rerror (payments_d a) = None"
    and d: "rdata (payments_d a) = Some (payments_query tbl pid)"
    using assms(4) by simp_all
  have ra: "recentActivity (handleViewDetails s pid a)
          = (if pid = [] then [] else take 5 (payments_query tbl pid))"
    using detail_success[OF assms(1,2,3) e assms(5), of s pid] d
    by (simp add: recentActivity_def)
  have "\<forall>x \<in> set (recentActivity (handleViewDetails s pid a)).
            \<forall>y \<in> set (drop 5 (payments_query tbl pid)).
              pay_created_at y \<le> pay_created_at x"
    unfolding ra
    using newest_first_take_drop[OF payments_query_newest_first, of _ 5 tbl pid]
    by auto
  with ra show ?thesis
    by (simp add: payments_query_set payments_query_newest_first)
qed

lemma newest_five_of_dated_payments:
  "map pay_id (take 5 (payments_query dated_payments ''p1''))
     = [''g'', ''f'', ''e'', ''d'', ''c'']"
  by (simp add: payments_query_def dated_payments_def payment_def)

theorem recent_activity_newest_five_witness:
  "map pay_id (recentActivity (handleViewDetails initial_state ''p1''
      (detail_ok\<lparr> payments_d := Response (Some (payments_query dated_payments ''p1'')) None \<rparr>)))
   = [''g'', ''f'', ''e'', ''d'', ''c'']"
  using recent_activity_newest_five
          [of "detail_ok\<lparr> payments_d :=
                 Response (Some (payments_query dated_payments ''p1'')) None \<rparr>"
              dated_payments "''p1''" melati_joined initial_state]
  by (simp add: detail_ok_def newest_five_of_dated_payments)

end
